theory Spec2Isabelle
  imports Complex_Main "HOL-Library.Multiset"
begin

section \<open>Solana staking analyzer: the calculator of \<open>src/index.py\<close>\<close>

text \<open>
  The development embeds the three computing methods of class \<open>SolanaStakingAnalyzer\<close>:
  \<open>calculate_apy\<close>, \<open>calculate_staking_returns\<close> and \<open>find_optimal_validators\<close>,
  together with the two fetching methods they call.

  Numbers. Python's \<open>float\<close> is modelled by \<open>real\<close>: every arithmetic operation is exact,
  there is no rounding, no overflow, no NaN produced by arithmetic and no infinity. What
  Python raises on floats is kept: a division by zero and a negative power of zero raise
  \<open>ZeroDivisionError\<close>. In a pandas column a missing value is NaN; there it is \<open>None\<close> of
  type \<open>real option\<close>.

  Effects. The two HTTP requests are reads of a \<open>world\<close>: it holds, for each endpoint, the
  answers the endpoint gives to the successive requests. A request takes the first answer
  off its list and returns the world that remains.
\<close>

subsection \<open>Errors\<close>

text \<open>
  The only exception that escapes the modelled methods is \<open>ZeroDivisionError\<close>. It is tagged
  with the operator that raises it: \<open>Pow\<close> for \<open>0.0 ** y\<close> with negative \<open>y\<close> (message
  "0.0 cannot be raised to a negative power"), \<open>TrueDiv\<close> for \<open>x / 0.0\<close> (message "float
  division by zero").
\<close>

datatype operator = Pow | TrueDiv

datatype py_error = ZeroDivisionError operator

definition float_pow :: "real \<Rightarrow> int \<Rightarrow> py_error + real" where
  \<comment> \<open>\<open>x ** y\<close> on floats, for an exponent \<open>y\<close> whose value is the integer \<open>n\<close>\<close>
  "float_pow x n = (if x = 0 \<and> n < 0 then Inl (ZeroDivisionError Pow) else Inr (x powi n))"

definition float_div :: "real \<Rightarrow> real \<Rightarrow> py_error + real" where
  \<comment> \<open>\<open>x / y\<close> on floats\<close>
  "float_div x y = (if y = 0 then Inl (ZeroDivisionError TrueDiv) else Inr (x / y))"

subsection \<open>The world behind the HTTP requests\<close>

text \<open>
  A validator as the validators endpoint lists it is a JSON object in which every key is
  optional; \<open>None\<close> is an absent key. A value under one of the four keys that the ranker
  makes numeric is either \<open>Numeric x\<close>, a number or a text that \<open>pd.to_numeric\<close> reads as
  the number \<open>x\<close>, or \<open>NonNumeric\<close>, anything that
  \<open>pd.to_numeric(..., errors='coerce')\<close> turns into NaN (null, other text). The record is
  polymorphic in the type of these four cells: \<open>field option\<close> as fetched, \<open>real option\<close>
  in the data frame after the conversion, where \<open>None\<close> is NaN.
\<close>

datatype field = Numeric real | NonNumeric

record 'cell validator =
  name :: "string option"
  votePubkey :: "string option"
  commission :: 'cell
  apy :: 'cell
  totalActiveStake :: 'cell
  creditScore :: 'cell

text \<open>A row of the data frame once the column \<open>score\<close> is added.\<close>

record 'cell scored = "'cell validator" +
  score :: 'cell

type_synonym fetched = "field option validator"

type_synonym row = "real option scored"

text \<open>
  \<open>price_feed\<close>: what the successive requests of \<open>get_current_sol_price\<close> find,
  \<open>Some c\<close> when the request succeeds and the answer holds the price \<open>c\<close> under
  \<open>["solana"]["usd"]\<close>, \<open>None\<close> when anything in the \<open>try\<close> block raises.
  \<open>validators_feed\<close>: the same for \<open>get_validators\<close>, \<open>Some vs\<close> being the list under \<open>"data"\<close>
  (the empty list when that key is absent). An exhausted feed answers no request.
\<close>

record world =
  price_feed :: "real option list"
  validators_feed :: "fetched list option list"

definition get_current_sol_price :: "world \<Rightarrow> real \<times> world" where
  "get_current_sol_price w =
     (case price_feed w of
        [] \<Rightarrow> (0, w)
      | answer # rest \<Rightarrow>
          (case answer of Some c \<Rightarrow> c | None \<Rightarrow> 0, w\<lparr>price_feed := rest\<rparr>))"

definition get_validators :: "world \<Rightarrow> fetched list \<times> world" where
  "get_validators w =
     (case validators_feed w of
        [] \<Rightarrow> ([], w)
      | answer # rest \<Rightarrow>
          (case answer of Some vs \<Rightarrow> vs | None \<Rightarrow> [], w\<lparr>validators_feed := rest\<rparr>))"

subsection \<open>\<open>calculate_apy\<close> (lines 62 to 70)\<close>



subsection \<open>\<open>calculate_staking_returns\<close> (lines 72 to 96)\<close>

record returns =
  initial_sol :: real
  final_sol :: real
  sol_earned :: real
  current_value_usd :: real
  projected_value_usd :: real
  roi_percentage :: real

definition compounds_per_year :: real where
  "compounds_per_year = 365"

text \<open>
  Lines 77 to 96, with the price that line 74 fetched as an argument. The exponent
  \<open>compounds_per_year * time_period_years\<close> is \<open>365 * (time_period_days / 365)\<close>, in exact
  arithmetic the integer \<open>time_period_days\<close> (lemma \<open>exponent_exact\<close> below), so taking
  its floor loses nothing.
\<close>

definition staking_returns_at :: "real \<Rightarrow> real \<Rightarrow> real \<Rightarrow> int \<Rightarrow> py_error + returns" where
  "staking_returns_at current_sol_price sol_amount apy time_period_days =
     (let apy_decimal = apy / 100;
          time_period_years = real_of_int time_period_days / 365
      in case float_pow (1 + apy_decimal / compounds_per_year)
                \<lfloor>compounds_per_year * time_period_years\<rfloor> of
           Inl e \<Rightarrow> Inl e
         | Inr growth \<Rightarrow>
             (let final_sol = sol_amount * growth;
                  sol_earned = final_sol - sol_amount;
                  current_value_usd = sol_amount * current_sol_price;
                  projected_value_usd = final_sol * current_sol_price
              in case float_div sol_earned sol_amount of
                   Inl e \<Rightarrow> Inl e
                 | Inr ratio \<Rightarrow>
                     Inr \<lparr>initial_sol = sol_amount,
                          final_sol = final_sol,
                          sol_earned = sol_earned,
                          current_value_usd = current_value_usd,
                          projected_value_usd = projected_value_usd,
                          roi_percentage = ratio * 100\<rparr>))"
  for apy

text \<open>The method: line 74 fetches the price, the rest computes.\<close>

definition calculate_staking_returns ::
  "world \<Rightarrow> real \<Rightarrow> real \<Rightarrow> int \<Rightarrow> (py_error + returns) \<times> world" where
  "calculate_staking_returns w sol_amount apy time_period_days =
     (let (current_sol_price, w') = get_current_sol_price w
      in (staking_returns_at current_sol_price sol_amount apy time_period_days, w'))"
  for apy

text \<open>The daily growth base \<open>1 + (apy / 100) / 365\<close>.\<close>

definition daily_base :: "real \<Rightarrow> real" where
  "daily_base apy = 1 + (apy / 100) / 365"
  for apy

subsection \<open>\<open>find_optimal_validators\<close> (lines 98 to 131)\<close>

text \<open>
  \<open>pd.DataFrame(validators)\<close> has one row for each fetched object and one column for each key
  that occurs in some object; a row without the key holds NaN there. \<open>has_column\<close> is
  \<open>col in df.columns\<close>, and \<open>df_empty\<close> is \<open>df.empty\<close>: no row, or no column.
\<close>

definition has_column :: "(fetched \<Rightarrow> 'a option) \<Rightarrow> fetched list \<Rightarrow> bool" where
  "has_column key validators = (\<exists>v \<in> set validators. key v \<noteq> None)"

definition df_empty :: "fetched list \<Rightarrow> bool" where
  "df_empty validators =
     (validators = [] \<or>
      \<not> (has_column name validators \<or> has_column votePubkey validators \<or>
         has_column commission validators \<or> has_column apy validators \<or>
         has_column totalActiveStake validators \<or> has_column creditScore validators))"

text \<open>
  \<open>pd.to_numeric(df[col], errors='coerce')\<close> cell by cell. An absent key is NaN before and
  after, so the test \<open>col in df.columns\<close> of line 111 changes nothing for the values.
\<close>

fun to_numeric :: "field option \<Rightarrow> real option" where
  "to_numeric (Some (Numeric x)) = Some x"
| "to_numeric (Some NonNumeric) = None"
| "to_numeric None = None"

definition numeric_row :: "fetched \<Rightarrow> real option validator" where
  "numeric_row v =
     \<lparr>name = name v,
      votePubkey = votePubkey v,
      commission = to_numeric (commission v),
      apy = to_numeric (apy v),
      totalActiveStake = to_numeric (totalActiveStake v),
      creditScore = to_numeric (creditScore v)\<rparr>"

text \<open>Arithmetic of a numeric column: NaN in, NaN out.\<close>

definition col_add :: "real option \<Rightarrow> real option \<Rightarrow> real option" where
  "col_add a b = (case a of None \<Rightarrow> None | Some x \<Rightarrow> (case b of None \<Rightarrow> None | Some y \<Rightarrow> Some (x + y)))"

definition col_times :: "real option \<Rightarrow> real \<Rightarrow> real option" where
  "col_times a k = (case a of None \<Rightarrow> None | Some x \<Rightarrow> Some (x * k))"

definition col_rsub :: "real \<Rightarrow> real option \<Rightarrow> real option" where
  "col_rsub k a = (case a of None \<Rightarrow> None | Some x \<Rightarrow> Some (k - x))"

text \<open>Lines 117 to 121.\<close>

definition add_score :: "real option validator \<Rightarrow> row" where
  "add_score r =
     validator.extend r
       \<lparr>score =
          col_add
            (col_add (col_times (apy r) 0.4) (col_times (col_rsub 100 (commission r)) 0.3))
            (col_times (creditScore r) 0.3)\<rparr>"

text \<open>The row that the data frame holds for a fetched validator.\<close>

definition scored_row :: "fetched \<Rightarrow> row" where
  "scored_row v = add_score (numeric_row v)"

text \<open>\<open>df.head(n)\<close>: the first \<open>n\<close> rows, all but the last \<open>-n\<close> rows when \<open>n\<close> is negative.\<close>

definition head :: "int \<Rightarrow> 'a list \<Rightarrow> 'a list" where
  "head n rows = (if 0 \<le> n then take (nat n) rows else take (length rows - nat (- n)) rows)"

text \<open>
  \<open>df.sort_values('score', ascending=False)\<close> is a call into pandas, with the default
  \<open>kind='quicksort'\<close> and \<open>na_position='last'\<close>. What pandas promises of it is \<open>sorts_by_score\<close>:
  the rows are rearranged, the scores descend and the rows with a NaN score come last. The
  order of rows with equal scores is promised only for the kinds \<open>'mergesort'\<close> and \<open>'stable'\<close>.
  The sorting function is therefore a parameter of the ranker, and the properties that
  depend on it assume \<open>sorts_by_score\<close> of it at the rows sorted.
\<close>

definition score_ge :: "real option \<Rightarrow> real option \<Rightarrow> bool" where
  "score_ge a b =
     (case b of None \<Rightarrow> True | Some y \<Rightarrow> (case a of None \<Rightarrow> False | Some x \<Rightarrow> y \<le> x))"

definition sorts_by_score :: "(row list \<Rightarrow> row list) \<Rightarrow> row list \<Rightarrow> bool" where
  "sorts_by_score sort_values rows =
     (mset (sort_values rows) = mset rows \<and>
      sorted_wrt (\<lambda>r s. score_ge (score r) (score s)) (sort_values rows))"

text \<open>
  The method. Line 100 fetches the validators (how many the endpoint lists for
  \<open>limit=200\<close> is the endpoint's matter); \<open>to_dict('records')\<close> returns the rows as they
  stand. No value of the model makes the \<open>try\<close> block raise, so its \<open>except\<close> branch, which
  returns the empty list, has no counterpart here; the messages printed are left out.
\<close>

definition find_optimal_validators ::
  "(row list \<Rightarrow> row list) \<Rightarrow> world \<Rightarrow> int \<Rightarrow> row list \<times> world" where
  "find_optimal_validators sort_values w top_n =
     (let (validators, w') = get_validators w
      in (if df_empty validators then []
          else if has_column commission validators \<and> has_column apy validators \<and>
                  has_column creditScore validators
          then head top_n (sort_values (map scored_row validators))
          else [],
          w'))"

text \<open>
  Two sorting functions that keep the promise. \<open>stable_sort\<close> inserts each row before the
  first row of strictly smaller score, from the last row to the first, so rows of equal score
  keep their order. \<open>reversing_sort\<close> does the same on the reversed frame, so rows of equal
  score come out in the opposite order.
\<close>

fun insert_row :: "row \<Rightarrow> row list \<Rightarrow> row list" where
  "insert_row r [] = [r]"
| "insert_row r (x # xs) =
     (if score_ge (score r) (score x) then r # x # xs else x # insert_row r xs)"

definition stable_sort :: "row list \<Rightarrow> row list" where
  "stable_sort rows = foldr insert_row rows []"


text \<open>A record is eligible when its three scored fields are all present and numeric.\<close>

definition is_numeric :: "field option \<Rightarrow> bool" where
  "is_numeric c = (to_numeric c \<noteq> None)"

definition eligible :: "fetched \<Rightarrow> bool" where
  "eligible v = (is_numeric (commission v) \<and> is_numeric (apy v) \<and> is_numeric (creditScore v))"

text \<open>The SOL-denominated part of a result.\<close>

definition sol_fields :: "returns \<Rightarrow> real \<times> real \<times> real \<times> real" where
  "sol_fields r = (initial_sol r, final_sol r, sol_earned r, roi_percentage r)"

text \<open>A world in which the price endpoint quotes the given prices, one for each request.\<close>

definition quoted :: "real list \<Rightarrow> world" where
  "quoted prices = \<lparr>price_feed = map Some prices, validators_feed = []\<rparr>"

text \<open>The test of line 116: the three scored columns are in the data frame.\<close>

definition required_columns :: "fetched list \<Rightarrow> bool" where
  "required_columns validators =
     (has_column commission validators \<and> has_column apy validators \<and>
      has_column creditScore validators)"

text \<open>A row has a score when its score is not NaN; \<open>by_score\<close> orders rows as the sort does.\<close>

definition has_score :: "row \<Rightarrow> bool" where
  "has_score r = (score r \<noteq> None)"

definition by_score :: "row \<Rightarrow> row \<Rightarrow> bool" where
  "by_score r s = score_ge (score r) (score s)"

text \<open>
  A world in which the validators endpoint answers one request with the given list, and a
  fetched validator with a name and the three scored fields.
\<close>

definition listing :: "fetched list \<Rightarrow> world" where
  "listing validators = \<lparr>price_feed = [], validators_feed = [Some validators]\<rparr>"

definition candidate :: "string \<Rightarrow> field option \<Rightarrow> field option \<Rightarrow> field option \<Rightarrow> fetched" where
  "candidate n c a s =
     \<lparr>name = Some n, votePubkey = None, commission = c, apy = a,
      totalActiveStake = None, creditScore = s\<rparr>"

section \<open>Properties of the returns projector\<close>

lemma exponent_exact:
  "real_of_int \<lfloor>compounds_per_year * (real_of_int d / 365)\<rfloor>
     = compounds_per_year * (real_of_int d / 365)"
  by (simp add: compounds_per_year_def)

lemma exponent_days: "\<lfloor>compounds_per_year * (real_of_int d / 365)\<rfloor> = d"
  by (simp add: compounds_per_year_def)

lemma staking_returns_at_cases:
  "staking_returns_at c p a d =
     (if daily_base a = 0 \<and> d < 0 then Inl (ZeroDivisionError Pow)
      else if p = 0 then Inl (ZeroDivisionError TrueDiv)
      else Inr \<lparr>initial_sol = p,
                final_sol = p * daily_base a powi d,
                sol_earned = p * daily_base a powi d - p,
                current_value_usd = p * c,
                projected_value_usd = p * daily_base a powi d * c,
                roi_percentage = (p * daily_base a powi d - p) / p * 100\<rparr>)"
  by (simp add: staking_returns_at_def float_pow_def float_div_def exponent_days
      daily_base_def compounds_per_year_def Let_def)

lemma calculate_staking_returns_fst:
  "fst (calculate_staking_returns w p a d)
     = staking_returns_at (fst (get_current_sol_price w)) p a d"
  by (simp add: calculate_staking_returns_def split_beta)


lemma price_of_quoted: "fst (get_current_sol_price (quoted (c # cs))) = c"
  by (simp add: get_current_sol_price_def quoted_def)




subsection \<open>The growth factor of one year at 10 percent\<close>


















subsection \<open>The claims about \<open>calculate_staking_returns\<close>\<close>










text \<open>
  Claim C8, as stated: with the horizon 0 the method returns \<open>final = p\<close> and \<open>earned = 0\<close>
  for every principal \<open>p\<close>. For \<open>p = 0\<close> it returns nothing: line 95 divides by zero.
\<close>

theorem zero_horizon_counterexample:
  "fst (calculate_staking_returns (quoted [100]) 0 10 0) = Inl (ZeroDivisionError TrueDiv)"
  by (simp add: calculate_staking_returns_fst staking_returns_at_cases)

text \<open>
  Claim C8, amended: for every principal \<open>p\<close> other than 0, every APY and every price, the
  method with the horizon 0 returns \<open>final\<close> equal to \<open>p\<close> and \<open>earned\<close> equal to 0.
\<close>

theorem zero_horizon_identity:
  "p \<noteq> 0 \<Longrightarrow>
     \<exists>r. fst (calculate_staking_returns w p a 0) = Inr r \<and> final_sol r = p \<and> sol_earned r = 0"
  by (simp add: calculate_staking_returns_fst staking_returns_at_cases)

theorem zero_horizon_identity_witness:
  "(10::real) \<noteq> 0
   \<and> (\<exists>r. fst (calculate_staking_returns (quoted [100]) 10 7 0) = Inr r
          \<and> final_sol r = 10 \<and> sol_earned r = 0)"
  using zero_horizon_identity [of 10 "quoted [100]" 7] by simp



text \<open>
  Claim C10. The outcome of the method restricted to the SOL-denominated fields
  (\<open>initial_sol\<close>, \<open>final_sol\<close>, \<open>sol_earned\<close>, \<open>roi_percentage\<close>), or the error raised, is the
  same in any two worlds, whatever prices they quote; the two USD fields are the initial
  and the final amount times the fetched price.
\<close>

theorem sol_fields_ignore_price:
  "map_sum id sol_fields (fst (calculate_staking_returns w p a d))
     = map_sum id sol_fields (fst (calculate_staking_returns w' p a d))
   \<and> (\<forall>r. fst (calculate_staking_returns w p a d) = Inr r \<longrightarrow>
        current_value_usd r = initial_sol r * fst (get_current_sol_price w)
        \<and> projected_value_usd r = final_sol r * fst (get_current_sol_price w))"
  by (simp add: calculate_staking_returns_fst staking_returns_at_cases sol_fields_def)

theorem sol_fields_ignore_price_witness:
  "map_sum id sol_fields (fst (calculate_staking_returns (quoted [100]) 10 10 0))
     = map_sum id sol_fields (fst (calculate_staking_returns (quoted [200]) 10 10 0))
   \<and> (\<exists>r. fst (calculate_staking_returns (quoted [100]) 10 10 0) = Inr r
          \<and> current_value_usd r = 1000 \<and> projected_value_usd r = 1000)
   \<and> fst (calculate_staking_returns (quoted [100]) 10 10 0)
       \<noteq> fst (calculate_staking_returns (quoted [200]) 10 10 0)"
proof -
  have r: "fst (calculate_staking_returns (quoted [c]) 10 10 0)
      = Inr \<lparr>initial_sol = 10, final_sol = 10, sol_earned = 0, current_value_usd = 10 * c,
             projected_value_usd = 10 * c, roi_percentage = 0\<rparr>" for c
    by (simp add: calculate_staking_returns_fst staking_returns_at_cases price_of_quoted)
  show ?thesis
    using sol_fields_ignore_price [of "quoted [100]" 10 10 0 "quoted [200]"]
    by (simp add: r price_of_quoted)
qed

section \<open>Properties of the APY calculator\<close>


section \<open>Properties of the validator ranker\<close>

lemma sorts_by_score_iff:
  "sorts_by_score srt rows \<longleftrightarrow> mset (srt rows) = mset rows \<and> sorted_wrt by_score (srt rows)"
  unfolding sorts_by_score_def by_score_def ..

lemma score_ge_total: "score_ge a b \<or> score_ge b a"
  by (auto simp add: score_ge_def split: option.splits)

lemma score_ge_trans: "score_ge a b \<Longrightarrow> score_ge b c \<Longrightarrow> score_ge a c"
  by (auto simp add: score_ge_def split: option.splits)

lemma score_ge_None_left: "score_ge None b \<longleftrightarrow> b = None"
  by (simp add: score_ge_def split: option.splits)

lemma set_insert_row: "set (insert_row r xs) = insert r (set xs)"
  by (induction xs) auto

lemma mset_insert_row: "mset (insert_row r xs) = add_mset r (mset xs)"
  by (induction xs) auto

lemma sorted_insert_row:
  "sorted_wrt by_score xs \<Longrightarrow> sorted_wrt by_score (insert_row r xs)"
proof (induction xs)
  case Nil
  then show ?case by simp
next
  case (Cons x xs)
  show ?case
  proof (cases "score_ge (score r) (score x)")
    case True
    then have "\<forall>y \<in> set xs. by_score r y"
      using Cons.prems score_ge_trans unfolding by_score_def by auto
    with True Cons.prems show ?thesis
      by (simp add: by_score_def)
  next
    case False
    then have "by_score x r"
      using score_ge_total unfolding by_score_def by blast
    with False Cons show ?thesis
      by (auto simp add: set_insert_row)
  qed
qed

lemma mset_stable_sort: "mset (stable_sort rows) = mset rows"
  unfolding stable_sort_def by (induction rows) (simp_all add: mset_insert_row)

lemma sorted_stable_sort: "sorted_wrt by_score (stable_sort rows)"
  unfolding stable_sort_def by (induction rows) (simp_all add: sorted_insert_row)

lemma stable_sort_sorts: "sorts_by_score stable_sort rows"
  by (simp add: sorts_by_score_iff mset_stable_sort sorted_stable_sort)


text \<open>Sorted frames: the rows with a score come first.\<close>

lemma unscored_tail:
  assumes "sorted_wrt by_score (x # xs)" and "\<not> has_score x"
  shows "filter has_score xs = []"
proof -
  have "\<forall>y \<in> set xs. score y = None"
    using assms by (auto simp add: by_score_def has_score_def score_ge_None_left)
  then show ?thesis
    by (simp add: filter_empty_conv has_score_def)
qed

lemma filter_take_sorted:
  "sorted_wrt by_score xs \<Longrightarrow> filter has_score (take n xs) = take n (filter has_score xs)"
proof (induction xs arbitrary: n)
  case Nil
  then show ?case by simp
next
  case (Cons x xs)
  show ?case
  proof (cases n)
    case 0
    then show ?thesis by simp
  next
    case (Suc m)
    show ?thesis
    proof (cases "has_score x")
      case True
      with Suc Cons show ?thesis by simp
    next
      case False
      have e: "filter has_score xs = []"
        using Cons.prems False by (rule unscored_tail)
      then have "filter has_score (take m xs) = []"
        by (metis filter_empty_conv in_set_takeD)
      with e False Suc show ?thesis by simp
    qed
  qed
qed

lemma scored_prefix:
  "sorted_wrt by_score xs \<Longrightarrow> i < length xs \<Longrightarrow>
     has_score (xs ! i) \<longleftrightarrow> i < length (filter has_score xs)"
proof (induction xs arbitrary: i)
  case Nil
  then show ?case by simp
next
  case (Cons x xs)
  show ?case
  proof (cases "has_score x")
    case True
    with Cons show ?thesis
      by (cases i) auto
  next
    case False
    have e: "filter has_score xs = []"
      using Cons.prems(1) False by (rule unscored_tail)
    then have "\<not> has_score (xs ! j)" if "j < length xs" for j
      using that by (metis filter_empty_conv nth_mem)
    with e False Cons.prems(2) show ?thesis
      by (cases i) auto
  qed
qed

lemma required_not_empty: "required_columns vs \<Longrightarrow> \<not> df_empty vs"
  by (auto simp add: required_columns_def df_empty_def has_column_def)

lemma find_optimal_validators_fst:
  "fst (find_optimal_validators srt w n) =
     (if required_columns (fst (get_validators w))
      then head n (srt (map scored_row (fst (get_validators w)))) else [])"
  using required_not_empty [of "fst (get_validators w)"]
  by (auto simp add: find_optimal_validators_def split_beta required_columns_def)


lemma head_nonneg: "0 \<le> n \<Longrightarrow> head n xs = take (nat n) xs"
  by (simp add: head_def)

lemma score_of_scored_row:
  "score (scored_row v) =
     (case (to_numeric (apy v), to_numeric (commission v), to_numeric (creditScore v)) of
        (Some a, Some c, Some s) \<Rightarrow> Some (a * 0.4 + (100 - c) * 0.3 + s * 0.3)
      | _ \<Rightarrow> None)"
  by (simp add: scored_row_def add_score_def numeric_row_def validator.defs
      col_add_def col_times_def col_rsub_def split: option.splits)

lemma has_score_scored_row: "has_score (scored_row v) \<longleftrightarrow> eligible v"
  by (auto simp add: has_score_def score_of_scored_row eligible_def is_numeric_def
      split: option.splits)

lemma count_scored_rows:
  "length (filter has_score (map scored_row vs)) = length (filter eligible vs)"
  by (induction vs) (simp_all add: has_score_scored_row)

lemma sorted_frame:
  assumes "sorts_by_score srt rows"
  shows "length (srt rows) = length rows"
    and "set (srt rows) = set rows"
    and "sorted_wrt by_score (srt rows)"
    and "length (filter has_score (srt rows)) = length (filter has_score rows)"
proof -
  have m: "mset (srt rows) = mset rows"
    using assms by (simp add: sorts_by_score_iff)
  show "length (srt rows) = length rows"
    using m by (rule mset_eq_length)
  show "set (srt rows) = set rows"
    using m by (rule mset_eq_setD)
  show "sorted_wrt by_score (srt rows)"
    using assms by (simp add: sorts_by_score_iff)
  have "mset (filter has_score (srt rows)) = mset (filter has_score rows)"
    using m by simp
  then show "length (filter has_score (srt rows)) = length (filter has_score rows)"
    by (rule mset_eq_length)
qed

lemma ranker_keeps_ineligible:
  assumes "sorts_by_score srt (map scored_row (fst (get_validators w)))" and "0 \<le> top_n"
  shows "length (fst (find_optimal_validators srt w top_n)) =
           (if required_columns (fst (get_validators w))
            then min (nat top_n) (length (fst (get_validators w))) else 0)"
    and "length (filter has_score (fst (find_optimal_validators srt w top_n))) =
           (if required_columns (fst (get_validators w))
            then min (nat top_n) (length (filter eligible (fst (get_validators w)))) else 0)"
    and "\<forall>i < length (fst (find_optimal_validators srt w top_n)).
           has_score (fst (find_optimal_validators srt w top_n) ! i)
             \<longleftrightarrow> i < length (filter eligible (fst (get_validators w)))"
    and "set (fst (find_optimal_validators srt w top_n)) \<subseteq> scored_row ` set (fst (get_validators w))"
proof -
  define vs where "vs = fst (get_validators w)"
  define sorted where "sorted = srt (map scored_row vs)"
  define out where "out = fst (find_optimal_validators srt w top_n)"
  have out: "out = (if required_columns vs then take (nat top_n) sorted else [])"
    using assms(2) by (simp add: out_def sorted_def vs_def find_optimal_validators_fst head_nonneg)
  have s: "sorts_by_score srt (map scored_row vs)"
    using assms(1) by (simp add: vs_def)
  have len: "length sorted = length vs"
    using sorted_frame(1) [OF s] by (simp add: sorted_def)
  have srtd: "sorted_wrt by_score sorted"
    using sorted_frame(3) [OF s] by (simp add: sorted_def)
  have cnt: "length (filter has_score sorted) = length (filter eligible vs)"
    using sorted_frame(4) [OF s] count_scored_rows [of vs] by (simp only: sorted_def)
  have st: "set sorted = scored_row ` set vs"
    using sorted_frame(2) [OF s] by (simp add: sorted_def)
  show "length out = (if required_columns vs then min (nat top_n) (length vs) else 0)"
    by (simp add: out len min.commute)
  show "length (filter has_score out) =
      (if required_columns vs then min (nat top_n) (length (filter eligible vs)) else 0)"
    by (simp add: out filter_take_sorted [OF srtd] cnt min.commute)
  show "\<forall>i < length out. has_score (out ! i) \<longleftrightarrow> i < length (filter eligible vs)"
  proof (intro allI impI)
    fix i assume i: "i < length out"
    then have r: "required_columns vs" and o: "out = take (nat top_n) sorted"
      by (auto simp add: out split: if_splits)
    from i o have "i < length sorted" and "out ! i = sorted ! i"
      by simp_all
    then show "has_score (out ! i) \<longleftrightarrow> i < length (filter eligible vs)"
      using scored_prefix [OF srtd, of i] cnt by simp
  qed
  show "set out \<subseteq> scored_row ` set vs"
    using st set_take_subset [of "nat top_n" sorted] by (auto simp add: out)
qed

lemma get_validators_listing: "fst (get_validators (listing vs)) = vs"
  by (simp add: get_validators_def listing_def)









subsection \<open>The claims about \<open>find_optimal_validators\<close>\<close>

text \<open>
  Claim C2, as stated: the output holds only records whose commission, apy and creditScore
  are all present and numeric, and its length is the smaller of \<open>top_n\<close> and the number of
  such records. The code drops nothing: of two fetched validators, one without
  \<open>creditScore\<close>, both are returned when \<open>top_n\<close> is 5.
\<close>

theorem ranker_drops_counterexample:
  "map name (fst (find_optimal_validators stable_sort
      (listing [candidate ''full'' (Some (Numeric 5)) (Some (Numeric 7)) (Some (Numeric 90)),
                candidate ''nocredit'' (Some (Numeric 5)) (Some (Numeric 7)) None]) 5))
     = [Some ''full'', Some ''nocredit'']
   \<and> \<not> eligible (candidate ''nocredit'' (Some (Numeric 5)) (Some (Numeric 7)) None)"
  by (simp add: find_optimal_validators_fst get_validators_listing required_columns_def
      has_column_def head_def stable_sort_def scored_row_def add_score_def numeric_row_def
      validator.defs score_ge_def
      col_add_def col_times_def col_rsub_def eligible_def is_numeric_def candidate_def)

text \<open>
  Claim C2, amended: for every fetched list and every \<open>top_n \<ge> 0\<close>, when no fetched record
  has the key commission, or none has apy, or none has creditScore, the output is empty;
  otherwise no record is dropped: the output has the smaller of \<open>top_n\<close> and the number of
  fetched records as its length, each of its rows is the scored row of a fetched record,
  the rows of the eligible records come first, the smaller of \<open>top_n\<close> and the number of
  eligible records of them, and the rows that follow have a NaN score. The sorting function
  is assumed to keep the promise of pandas at the rows of this frame.
\<close>

theorem ranker_keeps_all:
  "sorts_by_score srt (map scored_row (fst (get_validators w))) \<and> 0 \<le> top_n \<longrightarrow>
     length (fst (find_optimal_validators srt w top_n)) =
       (if has_column commission (fst (get_validators w)) \<and>
           has_column apy (fst (get_validators w)) \<and>
           has_column creditScore (fst (get_validators w))
        then min (nat top_n) (length (fst (get_validators w))) else 0)
     \<and> length (filter (\<lambda>r. score r \<noteq> None) (fst (find_optimal_validators srt w top_n))) =
       (if has_column commission (fst (get_validators w)) \<and>
           has_column apy (fst (get_validators w)) \<and>
           has_column creditScore (fst (get_validators w))
        then min (nat top_n) (length (filter eligible (fst (get_validators w)))) else 0)
     \<and> (\<forall>i < length (fst (find_optimal_validators srt w top_n)).
          score (fst (find_optimal_validators srt w top_n) ! i) \<noteq> None
            \<longleftrightarrow> i < length (filter eligible (fst (get_validators w))))
     \<and> (\<forall>r \<in> set (fst (find_optimal_validators srt w top_n)).
          \<exists>v \<in> set (fst (get_validators w)). r = scored_row v)"
proof
  assume h: "sorts_by_score srt (map scored_row (fst (get_validators w))) \<and> 0 \<le> top_n"
  then have s: "sorts_by_score srt (map scored_row (fst (get_validators w)))" and n: "0 \<le> top_n"
    by simp_all
  have hs: "has_score = (\<lambda>r. score r \<noteq> None)"
    by (simp add: fun_eq_iff has_score_def)
  show "length (fst (find_optimal_validators srt w top_n)) =
       (if has_column commission (fst (get_validators w)) \<and>
           has_column apy (fst (get_validators w)) \<and>
           has_column creditScore (fst (get_validators w))
        then min (nat top_n) (length (fst (get_validators w))) else 0)
     \<and> length (filter (\<lambda>r. score r \<noteq> None) (fst (find_optimal_validators srt w top_n))) =
       (if has_column commission (fst (get_validators w)) \<and>
           has_column apy (fst (get_validators w)) \<and>
           has_column creditScore (fst (get_validators w))
        then min (nat top_n) (length (filter eligible (fst (get_validators w)))) else 0)
     \<and> (\<forall>i < length (fst (find_optimal_validators srt w top_n)).
          score (fst (find_optimal_validators srt w top_n) ! i) \<noteq> None
            \<longleftrightarrow> i < length (filter eligible (fst (get_validators w))))
     \<and> (\<forall>r \<in> set (fst (find_optimal_validators srt w top_n)).
          \<exists>v \<in> set (fst (get_validators w)). r = scored_row v)"
    using ranker_keeps_ineligible(1) [OF s n] ranker_keeps_ineligible(2) [OF s n]
      ranker_keeps_ineligible(3) [OF s n] ranker_keeps_ineligible(4) [OF s n]
    unfolding hs required_columns_def has_score_def by blast
qed

theorem ranker_keeps_all_witness:
  "sorts_by_score stable_sort (map scored_row (fst (get_validators
      (listing [candidate ''nocredit'' (Some (Numeric 5)) (Some (Numeric 7)) None,
                candidate ''full'' (Some (Numeric 5)) (Some (Numeric 7)) (Some (Numeric 90))]))))
   \<and> (0::int) \<le> 5
   \<and> length (fst (find_optimal_validators stable_sort
        (listing [candidate ''nocredit'' (Some (Numeric 5)) (Some (Numeric 7)) None,
                  candidate ''full'' (Some (Numeric 5)) (Some (Numeric 7)) (Some (Numeric 90))]) 5))
       = 2
   \<and> length (filter (\<lambda>r. score r \<noteq> None) (fst (find_optimal_validators stable_sort
        (listing [candidate ''nocredit'' (Some (Numeric 5)) (Some (Numeric 7)) None,
                  candidate ''full'' (Some (Numeric 5)) (Some (Numeric 7)) (Some (Numeric 90))]) 5)))
       = 1"
proof -
  define vs where "vs = [candidate ''nocredit'' (Some (Numeric 5)) (Some (Numeric 7)) None,
      candidate ''full'' (Some (Numeric 5)) (Some (Numeric 7)) (Some (Numeric 90))]"
  have g: "fst (get_validators (listing vs)) = vs"
    by (rule get_validators_listing)
  have s: "sorts_by_score stable_sort (map scored_row (fst (get_validators (listing vs))))"
    by (rule stable_sort_sorts)
  have cols: "has_column commission vs \<and> has_column apy vs \<and> has_column creditScore vs"
    by (simp add: vs_def has_column_def candidate_def)
  have el: "length (filter eligible vs) = 1"
    by (simp add: vs_def eligible_def is_numeric_def candidate_def)
  have len: "length vs = 2"
    by (simp add: vs_def)
  show ?thesis
    using ranker_keeps_all [of stable_sort "listing vs" 5] s cols el len
    unfolding g vs_def [symmetric] by simp
qed






end
